theory Spec2Isabelle
  imports Complex_Main "HOL-Library.Word"
begin

unbundle bit_operations_syntax

section \<open>The player of smartpole\_privacy\_protector.c\<close>

text \<open>
  The program is a set of GTK+ and GStreamer callbacks around one record, \<open>CustomData\<close>,
  and three global flags. The two libraries are outside the program: every call into
  them is written down, in the order the C code makes it, as a value of type \<open>call\<close>,
  and every answer the program reads back from them (the result of a query, the value
  of the slider) is an argument of the callback. A callback of the C code is thus a
  function from the answers and the record to the new record and the list of calls.
\<close>

subsection \<open>Values of the libraries\<close>

text \<open>Pointers to elements and widgets are compared only for equality; \<open>NULL\<close> is 0.\<close>

type_synonym GstElement = nat
type_synonym GtkWidget = nat
type_synonym GstObject = nat

type_synonym gint = "32 word"
type_synonym gint64 = "64 word"
type_synonym gulong = "64 word"
type_synonym GstClockTime = "64 word"

text \<open>
  A double that the program only passes on (the constant \<open>1.0\<close>, the value it reads
  from the slider) is given by its value. The program also computes with doubles:
  it converts 64-bit integers to \<open>gdouble\<close>, multiplies, divides and casts back to
  \<open>gint64\<close>. This arithmetic rounds, and the cast is undefined out of the range of
  \<open>gint64\<close>; none of it is evaluated here. A computed double is the expression that
  computes it, and so is the \<open>gint64\<close> cast from it. No definition below looks into
  such an expression.
\<close>

type_synonym gdouble = real

text \<open>The enumeration \<open>GstState\<close>, in the order of its values 0 to 4.\<close>

datatype GstState =
  GST_STATE_VOID_PENDING
| GST_STATE_NULL
| GST_STATE_READY
| GST_STATE_PAUSED
| GST_STATE_PLAYING

fun GstState_value :: "GstState \<Rightarrow> nat" where
  "GstState_value GST_STATE_VOID_PENDING = 0"
| "GstState_value GST_STATE_NULL = 1"
| "GstState_value GST_STATE_READY = 2"
| "GstState_value GST_STATE_PAUSED = 3"
| "GstState_value GST_STATE_PLAYING = 4"

fun gst_element_state_get_name :: "GstState \<Rightarrow> string" where
  "gst_element_state_get_name GST_STATE_VOID_PENDING = ''VOID_PENDING''"
| "gst_element_state_get_name GST_STATE_NULL = ''NULL''"
| "gst_element_state_get_name GST_STATE_READY = ''READY''"
| "gst_element_state_get_name GST_STATE_PAUSED = ''PAUSED''"
| "gst_element_state_get_name GST_STATE_PLAYING = ''PLAYING''"

datatype GstFormat =
  GST_FORMAT_UNDEFINED
| GST_FORMAT_DEFAULT
| GST_FORMAT_BYTES
| GST_FORMAT_TIME
| GST_FORMAT_BUFFERS
| GST_FORMAT_PERCENT

datatype GstSeekType = GST_SEEK_TYPE_NONE | GST_SEEK_TYPE_SET | GST_SEEK_TYPE_END

text \<open>The two seek flags the program uses are bits 0 and 2 of a bit mask.\<close>

definition GST_SEEK_FLAG_FLUSH :: gint where
  "GST_SEEK_FLAG_FLUSH = push_bit 0 1"

definition GST_SEEK_FLAG_KEY_UNIT :: gint where
  "GST_SEEK_FLAG_KEY_UNIT = push_bit 2 1"

text \<open>
  \<open>GST_CLOCK_TIME_NONE\<close> is \<open>(GstClockTime) -1\<close>, and a time is valid when, read as a
  \<open>GstClockTime\<close>, it differs from it. \<open>GST_SECOND\<close> is the number of nanoseconds of a
  second.
\<close>

definition GST_CLOCK_TIME_NONE :: GstClockTime where
  "GST_CLOCK_TIME_NONE = - 1"

definition GST_CLOCK_TIME_IS_VALID :: "gint64 \<Rightarrow> bool" where
  "GST_CLOCK_TIME_IS_VALID t = (t \<noteq> GST_CLOCK_TIME_NONE)"

definition GST_SECOND :: GstClockTime where
  "GST_SECOND = 1000000000"

text \<open>
  The expressions of type \<open>gdouble\<close>: a double given by its value (also the integer
  constant 0 passed for a double), \<open>(gdouble) t\<close> for a signed and for an unsigned
  64-bit \<open>t\<close>, the product and the quotient of two doubles. The one expression of type
  \<open>gint64\<close> that comes from a double is the cast \<open>(gint64) x\<close>.
\<close>

datatype gdouble_expr =
  gdouble_value gdouble
| gdouble_of_gint64 gint64
| gdouble_of_guint64 GstClockTime
| gdouble_times gdouble_expr gdouble_expr
| gdouble_divide gdouble_expr gdouble_expr

datatype gint64_expr =
  gint64_value gint64
| gint64_of_gdouble gdouble_expr

definition LF :: char where
  "LF = CHR 0x0A"

definition CR :: char where
  "CR = CHR 0x0D"

subsection \<open>Calls into the libraries\<close>

datatype call =
  gst_element_set_state GstElement GstState
| gst_element_seek_simple GstElement GstFormat gint gint64_expr
| gst_element_seek GstElement gdouble GstFormat gint GstSeekType gint64 GstSeekType gint64
| gst_element_query_duration GstElement GstFormat
| gst_element_query_position GstElement GstFormat
| gst_debug_bin_to_dot_file_with_ts GstElement string
| g_object_set GstElement string gint
| gtk_range_get_value GtkWidget
| gtk_range_set_range GtkWidget gdouble_expr gdouble_expr
| gtk_range_set_value GtkWidget gdouble_expr
| gtk_button_set_label GtkWidget string
| gtk_main_quit
| g_signal_handler_block GtkWidget gulong
| g_signal_handler_unblock GtkWidget gulong
| g_print string
| g_printerr string
| printf string

subsection \<open>The record passed to the callbacks\<close>

record CustomData =
  playbin :: GstElement
  slider :: GtkWidget
  streams_list :: GtkWidget
  slider_update_signal_id :: gulong
  state :: GstState
  duration :: gint64

text \<open>
  What \<open>_main\<close> puts into the record before it connects the callbacks: all zero
  (\<open>memset\<close>), the duration \<open>GST_CLOCK_TIME_NONE\<close>, and the pipeline it has built.
\<close>

definition underscore_main_data :: "GstElement \<Rightarrow> CustomData" where
  "underscore_main_data pipeline =
     \<lparr>playbin = pipeline, slider = 0, streams_list = 0, slider_update_signal_id = 0,
      state = GST_STATE_VOID_PENDING, duration = GST_CLOCK_TIME_NONE\<rparr>"

subsection \<open>The button and window callbacks\<close>

definition play_cb :: "CustomData \<Rightarrow> CustomData \<times> call list" where
  "play_cb data = (data, [gst_element_set_state (playbin data) GST_STATE_PLAYING])"

definition pause_cb :: "CustomData \<Rightarrow> CustomData \<times> call list" where
  "pause_cb data = (data, [gst_element_set_state (playbin data) GST_STATE_PAUSED])"

definition stop_cb :: "CustomData \<Rightarrow> CustomData \<times> call list" where
  "stop_cb data = (data, [gst_element_set_state (playbin data) GST_STATE_READY])"

definition delete_event_cb :: "CustomData \<Rightarrow> CustomData \<times> call list" where
  "delete_event_cb data =
     (case stop_cb data of (data', cs) \<Rightarrow> (data', cs @ [gtk_main_quit]))"

text \<open>
  \<open>slider_cb\<close> reads the value of the slider (the argument \<open>v\<close> is what
  \<open>gtk_range_get_value\<close> returns) and seeks to \<open>(gint64)(value * GST_SECOND)\<close>.
\<close>

definition slider_cb :: "gdouble \<Rightarrow> CustomData \<Rightarrow> CustomData \<times> call list" where
  "slider_cb v data =
     (data,
      [gtk_range_get_value (slider data),
       gst_element_seek_simple (playbin data) GST_FORMAT_TIME
         (GST_SEEK_FLAG_FLUSH OR GST_SEEK_FLAG_KEY_UNIT)
         (gint64_of_gdouble
            (gdouble_times (gdouble_value v) (gdouble_of_guint64 GST_SECOND)))])"

subsection \<open>The periodic refresh\<close>

text \<open>
  The answers of the pipeline to the two queries of \<open>refresh_ui\<close>: \<open>None\<close> when the
  query returns \<open>FALSE\<close>, the value it stores otherwise. An answer is read only if the
  query is made.
\<close>

record answers =
  duration_answer :: "gint64 option"
  position_answer :: "gint64 option"

text \<open>
  The body of \<open>refresh_ui\<close> after its guard is two statements, written as two
  definitions: the query of the duration (lines 158 to 165), which may write the
  record, and the query of the position (lines 167 to 175). The duration is queried
  only when the field holds \<open>GST_CLOCK_TIME_NONE\<close>, and a query that fails leaves
  that value in it.
\<close>

definition query_duration_step :: "answers \<Rightarrow> CustomData \<Rightarrow> CustomData \<times> call list" where
  "query_duration_step a data =
     (if \<not> GST_CLOCK_TIME_IS_VALID (duration data) then
        (case duration_answer a of
           None \<Rightarrow>
             (data,
              [gst_element_query_duration (playbin data) GST_FORMAT_TIME,
               g_printerr (''Could not query current duration.'' @ [LF])])
         | Some d \<Rightarrow>
             (data\<lparr>duration := d\<rparr>,
              [gst_element_query_duration (playbin data) GST_FORMAT_TIME,
               gtk_range_set_range (slider data) (gdouble_value 0)
                 (gdouble_divide (gdouble_of_gint64 d) (gdouble_of_guint64 GST_SECOND))]))
      else (data, []))"

definition query_position_step :: "answers \<Rightarrow> CustomData \<Rightarrow> call list" where
  "query_position_step a data =
     (case position_answer a of
        None \<Rightarrow> [gst_element_query_position (playbin data) GST_FORMAT_TIME]
      | Some current \<Rightarrow>
          [gst_element_query_position (playbin data) GST_FORMAT_TIME,
           g_signal_handler_block (slider data) (slider_update_signal_id data),
           gtk_range_set_value (slider data)
             (gdouble_divide (gdouble_of_gint64 current) (gdouble_of_guint64 GST_SECOND)),
           g_signal_handler_unblock (slider data) (slider_update_signal_id data)])"

text \<open>The result is the returned \<open>gboolean\<close>, the record and the calls.\<close>

definition refresh_ui :: "answers \<Rightarrow> CustomData \<Rightarrow> bool \<times> CustomData \<times> call list" where
  "refresh_ui a data =
     (if GstState_value (state data) < GstState_value GST_STATE_PAUSED then (True, data, [])
      else
        (case query_duration_step a data of
           (data', cs) \<Rightarrow> (True, data', cs @ query_position_step a data')))"

text \<open>
  The timer of \<open>_main\<close> calls \<open>refresh_ui\<close> once a second for as long as it returns
  \<open>TRUE\<close>; \<open>timer\<close> runs it on a list of answers, one per tick, and gives the calls
  of each tick.
\<close>

fun timer :: "answers list \<Rightarrow> CustomData \<Rightarrow> CustomData \<times> call list list" where
  "timer [] data = (data, [])"
| "timer (a # as) data =
     (case refresh_ui a data of
        (again, data', cs) \<Rightarrow>
          if again then (case timer as data' of (data'', css) \<Rightarrow> (data'', cs # css))
          else (data', [cs]))"

subsection \<open>The callbacks of the bus\<close>

text \<open>What \<open>error_cb\<close> reads from an error message; \<open>debug_info\<close> may be \<open>NULL\<close>.\<close>

record error_message =
  src_name :: string
  err_message :: string
  debug_info :: "string option"

definition error_cb :: "error_message \<Rightarrow> CustomData \<Rightarrow> CustomData \<times> call list" where
  "error_cb msg data =
     (data,
      [g_printerr (''Error received from element '' @ src_name msg @ '': '' @
         err_message msg @ [LF]),
       g_printerr (''Debugging information: '' @
         (case debug_info msg of Some d \<Rightarrow> d | None \<Rightarrow> ''none'') @ [LF]),
       gst_element_set_state (playbin data) GST_STATE_READY])"

definition eos_cb :: "CustomData \<Rightarrow> CustomData \<times> call list" where
  "eos_cb data =
     (data,
      [g_print (''End-Of-Stream reached.'' @ [LF]),
       gst_element_set_state (playbin data) GST_STATE_READY])"

text \<open>What \<open>state_changed_cb\<close> reads from a state-changed message.\<close>

record state_changed_message =
  src :: GstObject
  old_state :: GstState
  new_state :: GstState
  pending_state :: GstState

definition state_changed_cb ::
  "answers \<Rightarrow> state_changed_message \<Rightarrow> CustomData \<Rightarrow> CustomData \<times> call list" where
  "state_changed_cb a msg data =
     (if src msg = playbin data then
        (case
           (if old_state msg = GST_STATE_READY \<and> new_state msg = GST_STATE_PAUSED then
              snd (refresh_ui a (data\<lparr>state := new_state msg\<rparr>))
            else (data\<lparr>state := new_state msg\<rparr>, []))
         of (data', cs) \<Rightarrow>
           (data',
            [g_print (''State set to '' @ gst_element_state_get_name (new_state msg) @ [LF])] @
            cs @
            [gst_debug_bin_to_dot_file_with_ts (playbin data')
               (''cctv'' @ gst_element_state_get_name (old_state msg) @ ''_'' @
                gst_element_state_get_name (new_state msg))]))
      else (data, []))"

text \<open>
  \<open>_eos_cb\<close>, named \<open>underscore_eos_cb\<close> here, takes its \<open>data\<close> pointer for the
  pipeline itself. \<open>seek_ok\<close> is what \<open>gst_element_seek\<close> returns.
\<close>

definition underscore_eos_cb :: "bool \<Rightarrow> GstElement \<Rightarrow> call list" where
  "underscore_eos_cb seek_ok pipeline =
     [g_print (''End-Of-Stream reached.'' @ [LF]),
      g_print (''End-Of-Stream reached.'' @ [LF]),
      gst_element_set_state pipeline GST_STATE_READY,
      gst_element_seek pipeline 1 GST_FORMAT_TIME GST_SEEK_FLAG_FLUSH
        GST_SEEK_TYPE_SET 0 GST_SEEK_TYPE_NONE GST_CLOCK_TIME_NONE] @
     (if \<not> seek_ok then [g_print (''Seek failed!'' @ [LF])] else []) @
     [gst_element_set_state pipeline GST_STATE_PLAYING]"

text \<open>
  The callbacks that \<open>_main\<close> and \<open>main\<close> connect to the signals of the bus. \<open>main\<close>
  passes the address of its variable \<open>pipeline\<close> as \<open>data\<close>; \<open>eos_cb\<close> reads the
  first field through it, which is the pipeline.
\<close>

datatype callback = Error_cb | Eos_cb | State_changed_cb | Application_cb | Underscore_eos_cb

definition underscore_main_bus_signals :: "(string \<times> callback) list" where
  "underscore_main_bus_signals =
     [(''message::error'', Error_cb),
      (''message::eos'', Eos_cb),
      (''message::state-changed'', State_changed_cb),
      (''message::application'', Application_cb)]"

definition main_bus_signals :: "(string \<times> callback) list" where
  "main_bus_signals = [(''message::eos'', Eos_cb)]"

subsection \<open>The main loop of \<open>_main\<close>\<close>

text \<open>
  Inside \<open>gtk_main\<close>, the callbacks that \<open>create_ui\<close> and \<open>_main\<close> have connected
  run one event at a time: the three buttons, the slider, the closing of the window,
  the timer, and the messages of the bus. An event carries what its callback reads
  from the libraries. The callbacks that neither write the record nor call the
  pipeline or the slider (\<open>realize_cb\<close>, \<open>draw_cb\<close>, \<open>tags_cb\<close>, \<open>application_cb\<close>)
  are left out.
\<close>

datatype event =
  Play_clicked
| Pause_clicked
| Stop_clicked
| Slider_value_changed gdouble
| Delete_event
| Timeout answers
| Message_error error_message
| Message_eos
| Message_state_changed answers state_changed_message

fun dispatch :: "event \<Rightarrow> CustomData \<Rightarrow> CustomData \<times> call list" where
  "dispatch Play_clicked data = play_cb data"
| "dispatch Pause_clicked data = pause_cb data"
| "dispatch Stop_clicked data = stop_cb data"
| "dispatch (Slider_value_changed v) data = slider_cb v data"
| "dispatch Delete_event data = delete_event_cb data"
| "dispatch (Timeout a) data = snd (refresh_ui a data)"
| "dispatch (Message_error msg) data = error_cb msg data"
| "dispatch Message_eos data = eos_cb data"
| "dispatch (Message_state_changed a msg) data = state_changed_cb a msg data"

fun main_loop :: "event list \<Rightarrow> CustomData \<Rightarrow> CustomData \<times> call list" where
  "main_loop [] data = (data, [])"
| "main_loop (e # es) data =
     (case dispatch e data of
        (data', cs) \<Rightarrow> (case main_loop es data' of (data'', cs') \<Rightarrow> (data'', cs @ cs')))"

subsection \<open>The three toggle buttons\<close>

text \<open>
  Each handler reads and writes its global flag: the third argument is the flag before
  the click, the first component of the result the flag after it.
\<close>

definition button_faceblur_onoff_func ::
  "GtkWidget \<Rightarrow> GstElement \<Rightarrow> gint \<Rightarrow> gint \<times> call list" where
  "button_faceblur_onoff_func widget data g_is_faceblur_onoff =
     (if g_is_faceblur_onoff = 0 then
        (1, [printf (''button_faceblur_onoff_func'' @ [CR, LF]),
             gtk_button_set_label widget ''face SHOW''])
      else
        (0, [printf (''button_faceblur_onoff_func'' @ [CR, LF]),
             gtk_button_set_label widget ''face HIDE'']))"

definition button_facearea_onoff_func ::
  "GtkWidget \<Rightarrow> GstElement \<Rightarrow> gint \<Rightarrow> gint \<times> call list" where
  "button_facearea_onoff_func widget data g_is_facearea_onoff =
     (if g_is_facearea_onoff = 0 then
        (1, [printf (''button_facearea_onoff_func'' @ [CR, LF]),
             g_object_set data ''display'' 1,
             gtk_button_set_label widget ''faceArea HIDE''])
      else
        (0, [printf (''button_facearea_onoff_func'' @ [CR, LF]),
             g_object_set data ''display'' 0,
             gtk_button_set_label widget ''faceArea SHOW'']))"

definition button_numberplateblur_onoff_func ::
  "GtkWidget \<Rightarrow> GstElement \<Rightarrow> gint \<Rightarrow> gint \<times> call list" where
  "button_numberplateblur_onoff_func widget data g_is_numberplateblur_onoff =
     (if g_is_numberplateblur_onoff = 0 then
        (1, [printf (''button_numberplateblur_onoff_func'' @ [CR, LF]),
             gtk_button_set_label widget ''numberPlate SHOW''])
      else
        (0, [printf (''button_numberplateblur_onoff_func'' @ [CR, LF]),
             gtk_button_set_label widget ''numberPlate HIDE'']))"

text \<open>
  The flag and the label of each button when \<open>main\<close> has built the window: the flags
  start at 0 and the labels are those of \<open>gtk_button_new_with_label\<close>.
\<close>

definition main_faceblur_button :: "gint \<times> string" where
  "main_faceblur_button = (0, ''face HIDE'')"

definition main_facearea_button :: "gint \<times> string" where
  "main_facearea_button = (0, ''faceArea SHOW'')"

definition main_numberplateblur_button :: "gint \<times> string" where
  "main_numberplateblur_button = (0, ''numberPlate HIDE'')"

text \<open>
  The label of a button after a list of calls: \<open>gtk_button_set_label\<close> on the button
  replaces it. A click runs the handler on the flag and applies its calls to the label.
\<close>

fun button_label :: "GtkWidget \<Rightarrow> string \<Rightarrow> call list \<Rightarrow> string" where
  "button_label widget l [] = l"
| "button_label widget l (c # cs) =
     button_label widget
       (case c of
          gtk_button_set_label w s \<Rightarrow> if w = widget then s else l
        | _ \<Rightarrow> l)
       cs"

definition click ::
  "(GtkWidget \<Rightarrow> GstElement \<Rightarrow> gint \<Rightarrow> gint \<times> call list) \<Rightarrow> GtkWidget \<Rightarrow> GstElement \<Rightarrow>
   gint \<times> string \<Rightarrow> gint \<times> string" where
  "click handler widget data s =
     (case handler widget data (fst s) of
        (g, cs) \<Rightarrow> (g, button_label widget (snd s) cs))"

text \<open>The flag and the label of a button after \<open>n\<close> clicks on it.\<close>

definition after_clicks ::
  "(GtkWidget \<Rightarrow> GstElement \<Rightarrow> gint \<Rightarrow> gint \<times> call list) \<Rightarrow> GtkWidget \<Rightarrow> GstElement \<Rightarrow>
   nat \<Rightarrow> gint \<times> string \<Rightarrow> gint \<times> string" where
  "after_clicks handler widget data n s = (click handler widget data ^^ n) s"

subsection \<open>Observations on lists of calls\<close>

text \<open>
  The handler \<open>i\<close> of the widget \<open>w\<close> along a list of calls. It starts unblocked.
  A \<open>gtk_range_set_value\<close> on \<open>w\<close> while it is unblocked is a violation: the handler
  would run. Once blocked, the next call must be the \<open>gtk_range_set_value\<close> on \<open>w\<close>
  and the call after it the unblocking; anything else is a violation as well.
  \<open>pushes_suppressed w i cs\<close> says that \<open>cs\<close> has no violation and leaves the handler
  unblocked.
\<close>

datatype handler_phase = Unblocked | Blocked_before_push | Blocked_after_push | Violation

fun handler_step :: "GtkWidget \<Rightarrow> gulong \<Rightarrow> handler_phase \<Rightarrow> call \<Rightarrow> handler_phase" where
  "handler_step w i Unblocked (g_signal_handler_block w' i') =
     (if w' = w \<and> i' = i then Blocked_before_push else Unblocked)"
| "handler_step w i Unblocked (g_signal_handler_unblock w' i') =
     (if w' = w \<and> i' = i then Violation else Unblocked)"
| "handler_step w i Unblocked (gtk_range_set_value w' v) =
     (if w' = w then Violation else Unblocked)"
| "handler_step w i Unblocked c = Unblocked"
| "handler_step w i Blocked_before_push (gtk_range_set_value w' v) =
     (if w' = w then Blocked_after_push else Violation)"
| "handler_step w i Blocked_before_push c = Violation"
| "handler_step w i Blocked_after_push (g_signal_handler_unblock w' i') =
     (if w' = w \<and> i' = i then Unblocked else Violation)"
| "handler_step w i Blocked_after_push c = Violation"
| "handler_step w i Violation c = Violation"

definition pushes_suppressed :: "GtkWidget \<Rightarrow> gulong \<Rightarrow> call list \<Rightarrow> bool" where
  "pushes_suppressed w i cs = (foldl (handler_step w i) Unblocked cs = Unblocked)"

text \<open>The kinds of call the claims speak of.\<close>

fun is_set_state :: "call \<Rightarrow> bool" where
  "is_set_state (gst_element_set_state e s) = True"
| "is_set_state c = False"

fun is_seek :: "call \<Rightarrow> bool" where
  "is_seek (gst_element_seek_simple e f fl t) = True"
| "is_seek (gst_element_seek e r f fl st t st' t') = True"
| "is_seek c = False"

fun is_duration_query :: "call \<Rightarrow> bool" where
  "is_duration_query (gst_element_query_duration e f) = True"
| "is_duration_query c = False"

fun is_position_query :: "call \<Rightarrow> bool" where
  "is_position_query (gst_element_query_position e f) = True"
| "is_position_query c = False"

fun is_range_set_range :: "call \<Rightarrow> bool" where
  "is_range_set_range (gtk_range_set_range w lo hi) = True"
| "is_range_set_range c = False"

fun is_range_set_value :: "call \<Rightarrow> bool" where
  "is_range_set_value (gtk_range_set_value w v) = True"
| "is_range_set_value c = False"

fun is_button_set_label :: "call \<Rightarrow> bool" where
  "is_button_set_label (gtk_button_set_label w l) = True"
| "is_button_set_label c = False"

fun is_object_set :: "call \<Rightarrow> bool" where
  "is_object_set (g_object_set e k v) = True"
| "is_object_set c = False"

section \<open>Properties\<close>

subsection \<open>Facts about \<open>refresh_ui\<close> used more than once\<close>

lemma refresh_ui_state: "state (fst (snd (refresh_ui a data))) = state data"
  by (simp add: refresh_ui_def query_duration_step_def split: option.splits prod.splits)

lemma refresh_ui_again: "fst (refresh_ui a data) = True"
  by (simp add: refresh_ui_def split: prod.splits)

lemma refresh_ui_playbin: "playbin (fst (snd (refresh_ui a data))) = playbin data"
  by (simp add: refresh_ui_def query_duration_step_def split: option.splits prod.splits)

lemma refresh_ui_slider:
  "slider (fst (snd (refresh_ui a data))) = slider data \<and>
   slider_update_signal_id (fst (snd (refresh_ui a data))) = slider_update_signal_id data"
  by (simp add: refresh_ui_def query_duration_step_def split: option.splits prod.splits)

lemma refresh_ui_no_set_state: "filter is_set_state (snd (snd (refresh_ui a data))) = []"
  by (simp add: refresh_ui_def query_duration_step_def query_position_step_def
      split: option.splits prod.splits)

lemma refresh_ui_position_query:
  "GstState_value GST_STATE_PAUSED \<le> GstState_value (state data) \<Longrightarrow>
   filter is_position_query (snd (snd (refresh_ui a data))) =
     [gst_element_query_position (playbin data) GST_FORMAT_TIME]"
  by (simp add: refresh_ui_def query_duration_step_def query_position_step_def
      split: option.splits prod.splits)

lemma refresh_ui_known_duration:
  "GST_CLOCK_TIME_IS_VALID (duration data) \<Longrightarrow>
   duration (fst (snd (refresh_ui a data))) = duration data \<and>
   filter is_duration_query (snd (snd (refresh_ui a data))) = []"
  by (simp add: refresh_ui_def query_duration_step_def query_position_step_def
      split: option.splits)

lemma refresh_ui_duration_failure:
  "GstState_value GST_STATE_PAUSED \<le> GstState_value (state data) \<Longrightarrow>
   \<not> GST_CLOCK_TIME_IS_VALID (duration data) \<Longrightarrow> duration_answer a = None \<Longrightarrow>
   refresh_ui a data =
     (True, data,
      [gst_element_query_duration (playbin data) GST_FORMAT_TIME,
       g_printerr (''Could not query current duration.'' @ [LF])] @
      query_position_step a data)"
  by (simp add: refresh_ui_def query_duration_step_def)

lemma query_position_step_pushes:
  "filter is_range_set_value (query_position_step a data) =
     (case position_answer a of
        None \<Rightarrow> []
      | Some current \<Rightarrow>
          [gtk_range_set_value (slider data)
             (gdouble_divide (gdouble_of_gint64 current) (gdouble_of_guint64 GST_SECOND))])"
  by (simp add: query_position_step_def split: option.splits)

subsection \<open>The error callback\<close>

text \<open>
  Claim C5. \<open>_main\<close> connects \<open>error_cb\<close> to the error messages of the bus. On an
  error message, \<open>error_cb\<close> asks for exactly one state of the
  pipeline, \<open>GST_STATE_READY\<close>, whatever the record holds (it reads neither the tracked
  state nor any pending state), and this is its last call; it first prints the error
  with the name of its source; it issues no seek and asks for no other state, so
  nothing restarts playback; the record is left as it was.
\<close>

theorem error_cb_forces_ready:
  "map_of underscore_main_bus_signals ''message::error'' = Some Error_cb \<and>
   fst (error_cb msg data) = data \<and>
   filter is_set_state (snd (error_cb msg data)) =
     [gst_element_set_state (playbin data) GST_STATE_READY] \<and>
   last (snd (error_cb msg data)) = gst_element_set_state (playbin data) GST_STATE_READY \<and>
   filter is_seek (snd (error_cb msg data)) = [] \<and>
   hd (snd (error_cb msg data)) =
     g_printerr (''Error received from element '' @ src_name msg @ '': '' @
       err_message msg @ [LF])"
  by (simp add: error_cb_def underscore_main_bus_signals_def)

subsection \<open>The state-changed callback\<close>

text \<open>
  Claim C9. A state-changed message whose source is not the pipeline leaves the whole
  record unchanged and makes no call; a message whose source is the pipeline sets the
  tracked state to the new state of the message.
\<close>

theorem state_changed_cb_source:
  "(src msg \<noteq> playbin data \<longrightarrow> state_changed_cb a msg data = (data, [])) \<and>
   (src msg = playbin data \<longrightarrow> state (fst (state_changed_cb a msg data)) = new_state msg)"
  using refresh_ui_state [of a "data\<lparr>state := new_state msg\<rparr>"]
  by (auto simp: state_changed_cb_def split: prod.splits)

theorem state_changed_cb_source_witness:
  "state_changed_cb \<lparr>duration_answer = None, position_answer = Some 7\<rparr>
     \<lparr>src = 2, old_state = GST_STATE_READY, new_state = GST_STATE_PAUSED,
      pending_state = GST_STATE_VOID_PENDING\<rparr>
     (underscore_main_data 1) = (underscore_main_data 1, []) \<and>
   state (fst (state_changed_cb \<lparr>duration_answer = None, position_answer = Some 7\<rparr>
     \<lparr>src = 1, old_state = GST_STATE_READY, new_state = GST_STATE_PAUSED,
      pending_state = GST_STATE_VOID_PENDING\<rparr>
     (underscore_main_data 1))) = GST_STATE_PAUSED"
  using
    state_changed_cb_source [of
      "\<lparr>src = 2, old_state = GST_STATE_READY, new_state = GST_STATE_PAUSED,
        pending_state = GST_STATE_VOID_PENDING\<rparr>"
      "underscore_main_data 1" "\<lparr>duration_answer = None, position_answer = Some 7\<rparr>"]
    state_changed_cb_source [of
      "\<lparr>src = 1, old_state = GST_STATE_READY, new_state = GST_STATE_PAUSED,
        pending_state = GST_STATE_VOID_PENDING\<rparr>"
      "underscore_main_data 1" "\<lparr>duration_answer = None, position_answer = Some 7\<rparr>"]
  by (simp add: underscore_main_data_def)

subsection \<open>End of stream\<close>

text \<open>
  Claim C1, as the code has it. Both \<open>main\<close> and \<open>_main\<close> connect \<open>eos_cb\<close> to the
  end-of-stream message, and \<open>eos_cb\<close> only stops: its one state request is
  \<open>GST_STATE_READY\<close>, it seeks nowhere and leaves the record alone. The restart is in
  \<open>_eos_cb\<close>, which no one connects: it asks for \<open>GST_STATE_READY\<close>, then seeks to 0
  with the flush flag, then asks for \<open>GST_STATE_PLAYING\<close>, in this order and whatever
  the seek returns; a failed seek is reported by one line, \<open>Seek failed!\<close>, and the
  seek is made once.
\<close>

theorem eos_stop_and_restart:
  "map_of main_bus_signals ''message::eos'' = Some Eos_cb \<and>
   map_of underscore_main_bus_signals ''message::eos'' = Some Eos_cb \<and>
   fst (eos_cb data) = data \<and>
   filter is_set_state (snd (eos_cb data)) =
     [gst_element_set_state (playbin data) GST_STATE_READY] \<and>
   filter is_seek (snd (eos_cb data)) = [] \<and>
   filter (\<lambda>c. is_set_state c \<or> is_seek c) (underscore_eos_cb seek_ok pipeline) =
     [gst_element_set_state pipeline GST_STATE_READY,
      gst_element_seek pipeline 1 GST_FORMAT_TIME GST_SEEK_FLAG_FLUSH
        GST_SEEK_TYPE_SET 0 GST_SEEK_TYPE_NONE GST_CLOCK_TIME_NONE,
      gst_element_set_state pipeline GST_STATE_PLAYING] \<and>
   filter (\<lambda>c. c = g_print (''Seek failed!'' @ [LF])) (underscore_eos_cb seek_ok pipeline) =
     (if seek_ok then [] else [g_print (''Seek failed!'' @ [LF])])"
  by (simp add: main_bus_signals_def underscore_main_bus_signals_def eos_cb_def
      underscore_eos_cb_def)

text \<open>
  Claim C1 as it is written fails on both callbacks: when the seek of \<open>_eos_cb\<close> fails,
  its last call still asks for \<open>GST_STATE_PLAYING\<close>; and the connected \<open>eos_cb\<close>
  neither seeks nor plays.
\<close>

theorem eos_restart_counterexample:
  "last (underscore_eos_cb False 1) = gst_element_set_state 1 GST_STATE_PLAYING \<and>
   filter is_seek (snd (eos_cb (underscore_main_data 1))) = [] \<and>
   filter is_set_state (snd (eos_cb (underscore_main_data 1))) =
     [gst_element_set_state 1 GST_STATE_READY]"
  by (simp add: eos_cb_def underscore_eos_cb_def underscore_main_data_def)

subsection \<open>The toggle buttons\<close>

text \<open>
  Claim C8, as the code has it. Only the face-area button sets a parameter of its
  element: one \<open>g_object_set\<close> of \<open>display\<close>, to the new value of the flag. The
  face-blur and number-plate buttons set no parameter at all. None of the three asks
  the pipeline for a state.
\<close>

theorem toggle_parameters:
  "filter is_object_set (snd (button_facearea_onoff_func w d g)) =
     [g_object_set d ''display'' (fst (button_facearea_onoff_func w d g))] \<and>
   filter is_object_set (snd (button_faceblur_onoff_func w d g)) = [] \<and>
   filter is_object_set (snd (button_numberplateblur_onoff_func w d g)) = [] \<and>
   filter is_set_state (snd (button_facearea_onoff_func w d g)) = [] \<and>
   filter is_set_state (snd (button_faceblur_onoff_func w d g)) = [] \<and>
   filter is_set_state (snd (button_numberplateblur_onoff_func w d g)) = []"
  by (simp add: button_facearea_onoff_func_def button_faceblur_onoff_func_def
      button_numberplateblur_onoff_func_def)

text \<open>
  Claim C8 as it is written fails for the face-blur and the number-plate button: the
  first click on either sets no parameter of any element.
\<close>

theorem toggle_parameters_counterexample:
  "filter is_object_set (snd (button_faceblur_onoff_func 1 2 0)) = [] \<and>
   filter is_object_set (snd (button_numberplateblur_onoff_func 1 0 0)) = []"
  by (simp add: button_faceblur_onoff_func_def button_numberplateblur_onoff_func_def)

lemma after_clicks_faceblur:
  "after_clicks button_faceblur_onoff_func w d n main_faceblur_button =
     (if even n then main_faceblur_button else (1, ''face SHOW''))"
  unfolding after_clicks_def
  by (induction n)
    (simp_all add: click_def button_faceblur_onoff_func_def main_faceblur_button_def)

lemma after_clicks_facearea:
  "after_clicks button_facearea_onoff_func w d n main_facearea_button =
     (if even n then main_facearea_button else (1, ''faceArea HIDE''))"
  unfolding after_clicks_def
  by (induction n)
    (simp_all add: click_def button_facearea_onoff_func_def main_facearea_button_def)

lemma after_clicks_numberplateblur:
  "after_clicks button_numberplateblur_onoff_func w d n main_numberplateblur_button =
     (if even n then main_numberplateblur_button else (1, ''numberPlate SHOW''))"
  unfolding after_clicks_def
  by (induction n)
    (simp_all add: click_def button_numberplateblur_onoff_func_def
      main_numberplateblur_button_def)

text \<open>
  Claim C10. For each of the three buttons. Whatever the flag holds, the handler sets
  it to 1 if it was 0 and to 0 otherwise, and sets the label of the clicked button
  once, to the text that goes with the flag it has read. In every state a button can
  be in (the one \<open>main\<close> builds, after any number \<open>n\<close> of clicks): the flag is 0 or 1,
  one click turns it into the other value and the label into the text of that flag,
  and two clicks give back the flag and the label.
\<close>

theorem toggle_involution:
  "click button_faceblur_onoff_func w d (click button_faceblur_onoff_func w d
     (after_clicks button_faceblur_onoff_func w d n main_faceblur_button)) =
     after_clicks button_faceblur_onoff_func w d n main_faceblur_button \<and>
   fst (click button_faceblur_onoff_func w d
     (after_clicks button_faceblur_onoff_func w d n main_faceblur_button)) =
     1 - fst (after_clicks button_faceblur_onoff_func w d n main_faceblur_button) \<and>
   (fst (after_clicks button_faceblur_onoff_func w d n main_faceblur_button) = 0 \<or>
    fst (after_clicks button_faceblur_onoff_func w d n main_faceblur_button) = 1) \<and>
   snd (click button_faceblur_onoff_func w d
     (after_clicks button_faceblur_onoff_func w d n main_faceblur_button)) =
     (if fst (after_clicks button_faceblur_onoff_func w d n main_faceblur_button) = 0
      then ''face SHOW'' else ''face HIDE'') \<and>
   fst (button_faceblur_onoff_func w d g) = (if g = 0 then 1 else 0) \<and>
   filter is_button_set_label (snd (button_faceblur_onoff_func w d g)) =
     [gtk_button_set_label w (if g = 0 then ''face SHOW'' else ''face HIDE'')] \<and>
   click button_facearea_onoff_func w d (click button_facearea_onoff_func w d
     (after_clicks button_facearea_onoff_func w d n main_facearea_button)) =
     after_clicks button_facearea_onoff_func w d n main_facearea_button \<and>
   fst (click button_facearea_onoff_func w d
     (after_clicks button_facearea_onoff_func w d n main_facearea_button)) =
     1 - fst (after_clicks button_facearea_onoff_func w d n main_facearea_button) \<and>
   (fst (after_clicks button_facearea_onoff_func w d n main_facearea_button) = 0 \<or>
    fst (after_clicks button_facearea_onoff_func w d n main_facearea_button) = 1) \<and>
   snd (click button_facearea_onoff_func w d
     (after_clicks button_facearea_onoff_func w d n main_facearea_button)) =
     (if fst (after_clicks button_facearea_onoff_func w d n main_facearea_button) = 0
      then ''faceArea HIDE'' else ''faceArea SHOW'') \<and>
   fst (button_facearea_onoff_func w d g) = (if g = 0 then 1 else 0) \<and>
   filter is_button_set_label (snd (button_facearea_onoff_func w d g)) =
     [gtk_button_set_label w (if g = 0 then ''faceArea HIDE'' else ''faceArea SHOW'')] \<and>
   click button_numberplateblur_onoff_func w d (click button_numberplateblur_onoff_func w d
     (after_clicks button_numberplateblur_onoff_func w d n main_numberplateblur_button)) =
     after_clicks button_numberplateblur_onoff_func w d n main_numberplateblur_button \<and>
   fst (click button_numberplateblur_onoff_func w d
     (after_clicks button_numberplateblur_onoff_func w d n main_numberplateblur_button)) =
     1 - fst (after_clicks button_numberplateblur_onoff_func w d n main_numberplateblur_button) \<and>
   (fst (after_clicks button_numberplateblur_onoff_func w d n main_numberplateblur_button) = 0 \<or>
    fst (after_clicks button_numberplateblur_onoff_func w d n main_numberplateblur_button) = 1) \<and>
   snd (click button_numberplateblur_onoff_func w d
     (after_clicks button_numberplateblur_onoff_func w d n main_numberplateblur_button)) =
     (if fst (after_clicks button_numberplateblur_onoff_func w d n main_numberplateblur_button) = 0
      then ''numberPlate SHOW'' else ''numberPlate HIDE'') \<and>
   fst (button_numberplateblur_onoff_func w d g) = (if g = 0 then 1 else 0) \<and>
   filter is_button_set_label (snd (button_numberplateblur_onoff_func w d g)) =
     [gtk_button_set_label w (if g = 0 then ''numberPlate SHOW'' else ''numberPlate HIDE'')]"
  unfolding after_clicks_faceblur after_clicks_facearea after_clicks_numberplateblur
  by (simp add: click_def button_faceblur_onoff_func_def button_facearea_onoff_func_def
      button_numberplateblur_onoff_func_def main_faceblur_button_def
      main_facearea_button_def main_numberplateblur_button_def)

theorem toggle_involution_witness:
  "click button_facearea_onoff_func 7 3 (click button_facearea_onoff_func 7 3
     (after_clicks button_facearea_onoff_func 7 3 1 main_facearea_button)) =
     (1, ''faceArea HIDE'') \<and>
   snd (click button_facearea_onoff_func 7 3
     (after_clicks button_facearea_onoff_func 7 3 1 main_facearea_button)) =
     ''faceArea SHOW'' \<and>
   click button_faceblur_onoff_func 6 2 (click button_faceblur_onoff_func 6 2
     (after_clicks button_faceblur_onoff_func 6 2 0 main_faceblur_button)) =
     (0, ''face HIDE'') \<and>
   snd (click button_faceblur_onoff_func 6 2
     (after_clicks button_faceblur_onoff_func 6 2 0 main_faceblur_button)) =
     ''face SHOW''"
proof -
  have a: "after_clicks button_facearea_onoff_func 7 3 1 main_facearea_button =
      (1, ''faceArea HIDE'')"
    by (simp add: after_clicks_def click_def button_facearea_onoff_func_def
        main_facearea_button_def)
  have b: "after_clicks button_faceblur_onoff_func 6 2 0 main_faceblur_button =
      (0, ''face HIDE'')"
    by (simp add: after_clicks_def main_faceblur_button_def)
  show ?thesis
    using toggle_involution [of 7 3 1] toggle_involution [of 6 2 0]
    unfolding a b by simp
qed

subsection \<open>Stop and the cached duration\<close>

lemma dispatch_known_duration:
  "GST_CLOCK_TIME_IS_VALID (duration data) \<Longrightarrow>
   duration (fst (dispatch e data)) = duration data \<and>
   filter is_duration_query (snd (dispatch e data)) = []"
proof (cases e)
  case (Timeout a)
  assume "GST_CLOCK_TIME_IS_VALID (duration data)"
  from refresh_ui_known_duration [OF this, of a] Timeout show ?thesis by simp
next
  case (Message_state_changed a msg)
  assume "GST_CLOCK_TIME_IS_VALID (duration data)"
  then have "GST_CLOCK_TIME_IS_VALID (duration (data\<lparr>state := new_state msg\<rparr>))" by simp
  from refresh_ui_known_duration [OF this, of a] Message_state_changed show ?thesis
    by (auto simp: state_changed_cb_def split: prod.splits)
qed (simp_all add: play_cb_def pause_cb_def stop_cb_def delete_event_cb_def slider_cb_def
    error_cb_def eos_cb_def)

lemma main_loop_known_duration:
  "GST_CLOCK_TIME_IS_VALID (duration data) \<Longrightarrow>
   duration (fst (main_loop es data)) = duration data \<and>
   filter is_duration_query (snd (main_loop es data)) = []"
proof (induction es arbitrary: data)
  case Nil
  then show ?case by simp
next
  case (Cons e es)
  obtain data' cs where d: "dispatch e data = (data', cs)" by (cases "dispatch e data")
  with dispatch_known_duration [OF Cons.prems, of e]
  have 1: "duration data' = duration data" "filter is_duration_query cs = []" by simp_all
  with Cons.prems have "GST_CLOCK_TIME_IS_VALID (duration data')" by simp
  from Cons.IH [OF this] 1 d show ?case by (auto split: prod.splits)
qed

text \<open>
  Claim C7, as the code has it. \<open>stop_cb\<close> asks for \<open>GST_STATE_READY\<close> and leaves the
  record, and so the cached duration, as it was. A duration that is known stays what
  it is through any sequence of events of the main loop (stops, plays, state changes
  and ticks of the timer among them), and no such sequence queries the duration again.
\<close>

theorem stop_keeps_duration:
  "stop_cb data = (data, [gst_element_set_state (playbin data) GST_STATE_READY]) \<and>
   (GST_CLOCK_TIME_IS_VALID (duration data) \<longrightarrow>
      duration (fst (main_loop es data)) = duration data \<and>
      filter is_duration_query (snd (main_loop es data)) = [])"
  using main_loop_known_duration [of data es] by (simp add: stop_cb_def)

theorem stop_keeps_duration_witness:
  "duration (fst (main_loop
     [Stop_clicked, Play_clicked,
      Timeout \<lparr>duration_answer = Some 9000000000, position_answer = Some 1000000000\<rparr>]
     ((underscore_main_data 1)\<lparr>state := GST_STATE_PAUSED, duration := 5000000000\<rparr>))) =
     5000000000 \<and>
   filter is_duration_query (snd (main_loop
     [Stop_clicked, Play_clicked,
      Timeout \<lparr>duration_answer = Some 9000000000, position_answer = Some 1000000000\<rparr>]
     ((underscore_main_data 1)\<lparr>state := GST_STATE_PAUSED, duration := 5000000000\<rparr>))) = []"
proof -
  have v: "GST_CLOCK_TIME_IS_VALID (duration
      ((underscore_main_data 1)\<lparr>state := GST_STATE_PAUSED, duration := 5000000000\<rparr>))"
    by (simp add: GST_CLOCK_TIME_IS_VALID_def GST_CLOCK_TIME_NONE_def)
  have d: "duration
      ((underscore_main_data 1)\<lparr>state := GST_STATE_PAUSED, duration := 5000000000\<rparr>) =
      5000000000"
    by simp
  from stop_keeps_duration [of
      "(underscore_main_data 1)\<lparr>state := GST_STATE_PAUSED, duration := 5000000000\<rparr>"
      "[Stop_clicked, Play_clicked,
        Timeout \<lparr>duration_answer = Some 9000000000, position_answer = Some 1000000000\<rparr>]"] v
  show ?thesis unfolding d by blast
qed

text \<open>
  Claim C7 as it is written fails: with a duration of 5 seconds cached, a stop leaves
  the 5 seconds in the record, and after the pipeline has gone down to
  \<open>GST_STATE_READY\<close>, a play, the way back up to \<open>GST_STATE_PLAYING\<close> and a tick of the
  timer, the duration has not been queried once, although the pipeline would now
  answer 9 seconds.
\<close>

theorem stop_keeps_duration_counterexample:
  "duration (fst (stop_cb
     ((underscore_main_data 1)\<lparr>state := GST_STATE_PLAYING, duration := 5000000000\<rparr>))) =
     5000000000 \<and>
   filter is_duration_query (snd (main_loop
     [Stop_clicked,
      Message_state_changed \<lparr>duration_answer = Some 9000000000, position_answer = Some 0\<rparr>
        \<lparr>src = 1, old_state = GST_STATE_PLAYING, new_state = GST_STATE_PAUSED,
         pending_state = GST_STATE_READY\<rparr>,
      Message_state_changed \<lparr>duration_answer = Some 9000000000, position_answer = Some 0\<rparr>
        \<lparr>src = 1, old_state = GST_STATE_PAUSED, new_state = GST_STATE_READY,
         pending_state = GST_STATE_VOID_PENDING\<rparr>,
      Play_clicked,
      Message_state_changed \<lparr>duration_answer = Some 9000000000, position_answer = Some 0\<rparr>
        \<lparr>src = 1, old_state = GST_STATE_READY, new_state = GST_STATE_PAUSED,
         pending_state = GST_STATE_PLAYING\<rparr>,
      Message_state_changed \<lparr>duration_answer = Some 9000000000, position_answer = Some 0\<rparr>
        \<lparr>src = 1, old_state = GST_STATE_PAUSED, new_state = GST_STATE_PLAYING,
         pending_state = GST_STATE_VOID_PENDING\<rparr>,
      Timeout \<lparr>duration_answer = Some 9000000000, position_answer = Some 1000000000\<rparr>]
     ((underscore_main_data 1)\<lparr>state := GST_STATE_PLAYING, duration := 5000000000\<rparr>))) = []"
  by (simp add: underscore_main_data_def stop_cb_def play_cb_def state_changed_cb_def
      refresh_ui_def query_duration_step_def query_position_step_def
      GST_CLOCK_TIME_IS_VALID_def GST_CLOCK_TIME_NONE_def)

subsection \<open>The refresh on reaching \<open>GST_STATE_PAUSED\<close>\<close>

text \<open>
  Claim C6, as the code has it. A state-changed message from the pipeline itself that
  goes from \<open>GST_STATE_READY\<close> to \<open>GST_STATE_PAUSED\<close> runs \<open>refresh_ui\<close> at once, on the
  record with the new state, between the line it prints and the dump of the graph;
  the refresh then does query the position. Any other message (another pair of
  states, or another source) makes no query and no update of the slider and leaves
  the duration alone. \<open>refresh_ui\<close> itself never writes the tracked state and never
  asks the pipeline for a state.
\<close>

theorem state_changed_cb_refresh:
  "(src msg = playbin data \<and> old_state msg = GST_STATE_READY \<and>
    new_state msg = GST_STATE_PAUSED \<longrightarrow>
      state_changed_cb a msg data =
        (fst (snd (refresh_ui a (data\<lparr>state := GST_STATE_PAUSED\<rparr>))),
         g_print (''State set to PAUSED'' @ [LF]) #
         snd (snd (refresh_ui a (data\<lparr>state := GST_STATE_PAUSED\<rparr>))) @
         [gst_debug_bin_to_dot_file_with_ts (playbin data) ''cctvREADY_PAUSED'']) \<and>
      filter is_position_query (snd (state_changed_cb a msg data)) =
        [gst_element_query_position (playbin data) GST_FORMAT_TIME]) \<and>
   (\<not> (src msg = playbin data \<and> old_state msg = GST_STATE_READY \<and>
       new_state msg = GST_STATE_PAUSED) \<longrightarrow>
      filter (\<lambda>c. is_duration_query c \<or> is_position_query c \<or> is_range_set_range c \<or>
        is_range_set_value c) (snd (state_changed_cb a msg data)) = [] \<and>
      duration (fst (state_changed_cb a msg data)) = duration data) \<and>
   state (fst (snd (refresh_ui a data))) = state data \<and>
   filter is_set_state (snd (snd (refresh_ui a data))) = []"
proof -
  let ?d = "data\<lparr>state := GST_STATE_PAUSED\<rparr>"
  have p: "playbin (fst (snd (refresh_ui a ?d))) = playbin data"
    by (simp add: refresh_ui_playbin)
  have q: "filter is_position_query (snd (snd (refresh_ui a ?d))) =
      [gst_element_query_position (playbin data) GST_FORMAT_TIME]"
    using refresh_ui_position_query [of ?d a] by simp
  have 1: "src msg = playbin data \<and> old_state msg = GST_STATE_READY \<and>
      new_state msg = GST_STATE_PAUSED \<longrightarrow>
      state_changed_cb a msg data =
        (fst (snd (refresh_ui a ?d)),
         g_print (''State set to PAUSED'' @ [LF]) # snd (snd (refresh_ui a ?d)) @
         [gst_debug_bin_to_dot_file_with_ts (playbin data) ''cctvREADY_PAUSED''])"
    using p by (cases "snd (refresh_ui a ?d)") (simp add: state_changed_cb_def)
  have 2: "src msg = playbin data \<and> old_state msg = GST_STATE_READY \<and>
      new_state msg = GST_STATE_PAUSED \<longrightarrow>
      filter is_position_query (snd (state_changed_cb a msg data)) =
        [gst_element_query_position (playbin data) GST_FORMAT_TIME]"
    using 1 q by simp
  have 3: "\<not> (src msg = playbin data \<and> old_state msg = GST_STATE_READY \<and>
       new_state msg = GST_STATE_PAUSED) \<longrightarrow>
      filter (\<lambda>c. is_duration_query c \<or> is_position_query c \<or> is_range_set_range c \<or>
        is_range_set_value c) (snd (state_changed_cb a msg data)) = [] \<and>
      duration (fst (state_changed_cb a msg data)) = duration data"
    by (simp add: state_changed_cb_def)
  from 1 2 3 refresh_ui_state [of a data] refresh_ui_no_set_state [of a data]
  show ?thesis by blast
qed

theorem state_changed_cb_refresh_witness:
  "filter is_position_query (snd (state_changed_cb
     \<lparr>duration_answer = None, position_answer = Some 0\<rparr>
     \<lparr>src = 1, old_state = GST_STATE_READY, new_state = GST_STATE_PAUSED,
      pending_state = GST_STATE_PLAYING\<rparr>
     (underscore_main_data 1))) = [gst_element_query_position 1 GST_FORMAT_TIME] \<and>
   filter (\<lambda>c. is_duration_query c \<or> is_position_query c \<or> is_range_set_range c \<or>
     is_range_set_value c) (snd (state_changed_cb
     \<lparr>duration_answer = None, position_answer = Some 0\<rparr>
     \<lparr>src = 1, old_state = GST_STATE_PAUSED, new_state = GST_STATE_PLAYING,
      pending_state = GST_STATE_VOID_PENDING\<rparr>
     (underscore_main_data 1))) = []"
proof -
  let ?a = "\<lparr>duration_answer = None, position_answer = Some (0 :: gint64)\<rparr>"
  let ?up = "\<lparr>src = 1, old_state = GST_STATE_READY, new_state = GST_STATE_PAUSED,
      pending_state = GST_STATE_PLAYING\<rparr>"
  let ?on = "\<lparr>src = 1, old_state = GST_STATE_PAUSED, new_state = GST_STATE_PLAYING,
      pending_state = GST_STATE_VOID_PENDING\<rparr>"
  have p: "playbin (underscore_main_data 1) = 1"
    by (simp add: underscore_main_data_def)
  have h1: "src ?up = playbin (underscore_main_data 1) \<and> old_state ?up = GST_STATE_READY \<and>
      new_state ?up = GST_STATE_PAUSED"
    by (simp add: underscore_main_data_def)
  have h2: "\<not> (src ?on = playbin (underscore_main_data 1) \<and>
      old_state ?on = GST_STATE_READY \<and> new_state ?on = GST_STATE_PAUSED)"
    by simp
  from state_changed_cb_refresh [of ?up "underscore_main_data 1" ?a] h1
  have c1: "filter is_position_query (snd (state_changed_cb ?a ?up (underscore_main_data 1))) =
      [gst_element_query_position (playbin (underscore_main_data 1)) GST_FORMAT_TIME]"
    by blast
  from state_changed_cb_refresh [of ?on "underscore_main_data 1" ?a] h2
  have c2: "filter (\<lambda>c. is_duration_query c \<or> is_position_query c \<or> is_range_set_range c \<or>
      is_range_set_value c) (snd (state_changed_cb ?a ?on (underscore_main_data 1))) = []"
    by blast
  from c1 c2 show ?thesis unfolding p by blast
qed

text \<open>
  Claim C6 as it is written fails: a state-changed message that reports
  \<open>GST_STATE_READY\<close> to \<open>GST_STATE_PAUSED\<close> for a child element (source 2, where the
  pipeline is 1) triggers no refresh; the callback does nothing at all.
\<close>

theorem state_changed_cb_child_counterexample:
  "state_changed_cb \<lparr>duration_answer = Some 5000000000, position_answer = Some 0\<rparr>
     \<lparr>src = 2, old_state = GST_STATE_READY, new_state = GST_STATE_PAUSED,
      pending_state = GST_STATE_VOID_PENDING\<rparr>
     ((underscore_main_data 1)\<lparr>state := GST_STATE_READY\<rparr>) =
     ((underscore_main_data 1)\<lparr>state := GST_STATE_READY\<rparr>, [])"
  by (simp add: state_changed_cb_def underscore_main_data_def)

subsection \<open>Pushing the position to the slider\<close>

lemma pushes_suppressed_append:
  "pushes_suppressed w i xs \<Longrightarrow>
   pushes_suppressed w i (xs @ ys) = pushes_suppressed w i ys"
  by (simp add: pushes_suppressed_def)

lemma refresh_ui_pushes:
  "pushes_suppressed (slider data) (slider_update_signal_id data)
     (snd (snd (refresh_ui a data)))"
  by (simp add: pushes_suppressed_def refresh_ui_def query_duration_step_def
      query_position_step_def split: option.splits prod.splits)

lemma state_changed_cb_pushes:
  "pushes_suppressed (slider data) (slider_update_signal_id data)
     (snd (state_changed_cb a msg data))"
  using refresh_ui_pushes [of "data\<lparr>state := GST_STATE_PAUSED\<rparr>" a]
  by (auto simp: pushes_suppressed_def state_changed_cb_def split: prod.splits)

lemma state_changed_cb_slider:
  "slider (fst (state_changed_cb a msg data)) = slider data \<and>
   slider_update_signal_id (fst (state_changed_cb a msg data)) = slider_update_signal_id data"
  using refresh_ui_slider [of a "data\<lparr>state := new_state msg\<rparr>"]
  by (auto simp: state_changed_cb_def split: prod.splits)

lemma dispatch_pushes:
  "pushes_suppressed (slider data) (slider_update_signal_id data) (snd (dispatch e data))"
proof (cases e)
  case (Timeout a)
  with refresh_ui_pushes [of data a] show ?thesis by simp
next
  case (Message_state_changed a msg)
  with state_changed_cb_pushes [of data a msg] show ?thesis by simp
qed (simp_all add: pushes_suppressed_def play_cb_def pause_cb_def stop_cb_def
    delete_event_cb_def slider_cb_def error_cb_def eos_cb_def)

lemma dispatch_slider:
  "slider (fst (dispatch e data)) = slider data \<and>
   slider_update_signal_id (fst (dispatch e data)) = slider_update_signal_id data"
proof (cases e)
  case (Timeout a)
  with refresh_ui_slider [of a data] show ?thesis by simp
next
  case (Message_state_changed a msg)
  with state_changed_cb_slider [of a msg data] show ?thesis by simp
qed (simp_all add: play_cb_def pause_cb_def stop_cb_def delete_event_cb_def slider_cb_def
    error_cb_def eos_cb_def)

lemma main_loop_pushes:
  "pushes_suppressed (slider data) (slider_update_signal_id data) (snd (main_loop es data))"
proof (induction es arbitrary: data)
  case Nil
  show ?case by (simp add: pushes_suppressed_def)
next
  case (Cons e es)
  obtain data' cs where d: "dispatch e data = (data', cs)"
    by (cases "dispatch e data")
  obtain data'' cs' where g: "main_loop es data' = (data'', cs')"
    by (cases "main_loop es data'")
  from d dispatch_slider [of e data]
  have s: "slider data' = slider data"
    "slider_update_signal_id data' = slider_update_signal_id data"
    by simp_all
  from d dispatch_pushes [of data e]
  have 1: "pushes_suppressed (slider data) (slider_update_signal_id data) cs" by simp
  from g s Cons.IH [of data']
  have 2: "pushes_suppressed (slider data) (slider_update_signal_id data) cs'" by simp
  from 1 2 d g show ?case by (simp add: pushes_suppressed_append)
qed

text \<open>
  Claim C4. In the calls of one \<open>refresh_ui\<close>, and in the calls of any sequence of
  events of the main loop, every \<open>gtk_range_set_value\<close> on the slider comes right
  after the blocking of the slider's \<open>value-changed\<close> handler and right before its
  unblocking, and the handler is blocked at no other moment. The one push of a
  refresh is that of the position the pipeline has answered.
\<close>

theorem position_push_suppressed:
  "pushes_suppressed (slider data) (slider_update_signal_id data)
     (snd (snd (refresh_ui a data))) \<and>
   pushes_suppressed (slider data) (slider_update_signal_id data)
     (snd (main_loop es data)) \<and>
   filter is_range_set_value (snd (snd (refresh_ui a data))) =
     (if GstState_value (state data) < GstState_value GST_STATE_PAUSED then []
      else case position_answer a of
        None \<Rightarrow> []
      | Some current \<Rightarrow>
          [gtk_range_set_value (slider data)
             (gdouble_divide (gdouble_of_gint64 current) (gdouble_of_guint64 GST_SECOND))])"
  using refresh_ui_pushes [of data a] main_loop_pushes [of data es]
  by (simp add: refresh_ui_def query_duration_step_def query_position_step_def
      split: option.splits prod.splits)

theorem position_push_suppressed_witness:
  "pushes_suppressed 4 9
     [gst_element_query_position 1 GST_FORMAT_TIME,
      g_signal_handler_block 4 9,
      gtk_range_set_value 4
        (gdouble_divide (gdouble_of_gint64 2000000000) (gdouble_of_guint64 GST_SECOND)),
      g_signal_handler_unblock 4 9] \<and>
   snd (snd (refresh_ui \<lparr>duration_answer = None, position_answer = Some 2000000000\<rparr>
     \<lparr>playbin = 1, slider = 4, streams_list = 5, slider_update_signal_id = 9,
      state = GST_STATE_PLAYING, duration = 60000000000\<rparr>)) =
     [gst_element_query_position 1 GST_FORMAT_TIME,
      g_signal_handler_block 4 9,
      gtk_range_set_value 4
        (gdouble_divide (gdouble_of_gint64 2000000000) (gdouble_of_guint64 GST_SECOND)),
      g_signal_handler_unblock 4 9]"
proof -
  have e: "snd (snd (refresh_ui \<lparr>duration_answer = None, position_answer = Some 2000000000\<rparr>
     \<lparr>playbin = 1, slider = 4, streams_list = 5, slider_update_signal_id = 9,
      state = GST_STATE_PLAYING, duration = 60000000000\<rparr>)) =
     [gst_element_query_position 1 GST_FORMAT_TIME,
      g_signal_handler_block 4 9,
      gtk_range_set_value 4
        (gdouble_divide (gdouble_of_gint64 2000000000) (gdouble_of_guint64 GST_SECOND)),
      g_signal_handler_unblock 4 9]"
    by (simp add: refresh_ui_def query_duration_step_def query_position_step_def
        GST_CLOCK_TIME_IS_VALID_def GST_CLOCK_TIME_NONE_def)
  from position_push_suppressed [of
      "\<lparr>playbin = 1, slider = 4, streams_list = 5, slider_update_signal_id = 9,
        state = GST_STATE_PLAYING, duration = 60000000000\<rparr>"
      "\<lparr>duration_answer = None, position_answer = Some 2000000000\<rparr>" "[]"]
  show ?thesis unfolding e by simp
qed

subsection \<open>The periodic poll\<close>

lemma timer_duration_failures:
  assumes "GstState_value GST_STATE_PAUSED \<le> GstState_value (state data)"
    and "\<not> GST_CLOCK_TIME_IS_VALID (duration data)"
    and "\<forall>a \<in> set as. duration_answer a = None"
  shows "fst (timer as data) = data \<and>
    map (filter is_duration_query) (snd (timer as data)) =
      map (\<lambda>a. [gst_element_query_duration (playbin data) GST_FORMAT_TIME]) as \<and>
    map (filter is_range_set_value) (snd (timer as data)) =
      map (\<lambda>a. case position_answer a of
             None \<Rightarrow> []
           | Some current \<Rightarrow>
               [gtk_range_set_value (slider data)
                  (gdouble_divide (gdouble_of_gint64 current) (gdouble_of_guint64 GST_SECOND))]) as"
  using assms(3)
proof (induction as)
  case Nil
  show ?case by simp
next
  case (Cons a as)
  then have n: "duration_answer a = None" by simp
  from Cons have ih: "fst (timer as data) = data \<and>
    map (filter is_duration_query) (snd (timer as data)) =
      map (\<lambda>a. [gst_element_query_duration (playbin data) GST_FORMAT_TIME]) as \<and>
    map (filter is_range_set_value) (snd (timer as data)) =
      map (\<lambda>a. case position_answer a of
             None \<Rightarrow> []
           | Some current \<Rightarrow>
               [gtk_range_set_value (slider data)
                  (gdouble_divide (gdouble_of_gint64 current) (gdouble_of_guint64 GST_SECOND))]) as"
    by simp
  obtain d css where t: "timer as data = (d, css)" by (cases "timer as data")
  have q: "filter is_duration_query (query_position_step a data) = []"
    by (simp add: query_position_step_def split: option.splits)
  from ih t q refresh_ui_duration_failure [OF assms(1,2) n]
    query_position_step_pushes [of a data]
  show ?case by simp
qed

text \<open>
  Claim C3, as the code has it. \<open>refresh_ui\<close> always returns \<open>TRUE\<close>, so the timer
  goes on. Below \<open>GST_STATE_PAUSED\<close> it does nothing. From \<open>GST_STATE_PAUSED\<close> on: it
  queries the duration once if the duration is unknown and not at all otherwise; a
  successful query stores the duration, a failed one leaves the record as it was and
  prints one line to the error output; it queries the position once, and pushes the
  position to the slider exactly when that query succeeds. If the duration is unknown
  and the duration query fails at every tick of a run of the timer, the record is
  unchanged after the run, every tick has queried the duration again, and each tick
  whose position query succeeds has pushed that position.
\<close>

theorem refresh_ui_poll:
  "fst (refresh_ui a data) = True \<and>
   (GstState_value (state data) < GstState_value GST_STATE_PAUSED \<longrightarrow>
      snd (refresh_ui a data) = (data, [])) \<and>
   (GstState_value GST_STATE_PAUSED \<le> GstState_value (state data) \<longrightarrow>
      filter is_duration_query (snd (snd (refresh_ui a data))) =
        (if GST_CLOCK_TIME_IS_VALID (duration data) then []
         else [gst_element_query_duration (playbin data) GST_FORMAT_TIME]) \<and>
      fst (snd (refresh_ui a data)) =
        (if GST_CLOCK_TIME_IS_VALID (duration data) then data
         else case duration_answer a of None \<Rightarrow> data | Some d \<Rightarrow> data\<lparr>duration := d\<rparr>) \<and>
      filter (\<lambda>c. c = g_printerr (''Could not query current duration.'' @ [LF]))
          (snd (snd (refresh_ui a data))) =
        (if \<not> GST_CLOCK_TIME_IS_VALID (duration data) \<and> duration_answer a = None
         then [g_printerr (''Could not query current duration.'' @ [LF])] else []) \<and>
      filter is_position_query (snd (snd (refresh_ui a data))) =
        [gst_element_query_position (playbin data) GST_FORMAT_TIME] \<and>
      filter is_range_set_value (snd (snd (refresh_ui a data))) =
        (case position_answer a of
           None \<Rightarrow> []
         | Some current \<Rightarrow>
             [gtk_range_set_value (slider data)
                (gdouble_divide (gdouble_of_gint64 current) (gdouble_of_guint64 GST_SECOND))]) \<and>
      (\<not> GST_CLOCK_TIME_IS_VALID (duration data) \<and>
       (\<forall>a \<in> set as. duration_answer a = None) \<longrightarrow>
         fst (timer as data) = data \<and>
         map (filter is_duration_query) (snd (timer as data)) =
           map (\<lambda>a. [gst_element_query_duration (playbin data) GST_FORMAT_TIME]) as \<and>
         map (filter is_range_set_value) (snd (timer as data)) =
           map (\<lambda>a. case position_answer a of
                  None \<Rightarrow> []
                | Some current \<Rightarrow>
                    [gtk_range_set_value (slider data)
                       (gdouble_divide (gdouble_of_gint64 current) (gdouble_of_guint64 GST_SECOND))]) as))"
proof -
  have 1: "GstState_value (state data) < GstState_value GST_STATE_PAUSED \<longrightarrow>
      snd (refresh_ui a data) = (data, [])"
    by (simp add: refresh_ui_def)
  have 2: "GstState_value GST_STATE_PAUSED \<le> GstState_value (state data) \<longrightarrow>
      filter is_duration_query (snd (snd (refresh_ui a data))) =
        (if GST_CLOCK_TIME_IS_VALID (duration data) then []
         else [gst_element_query_duration (playbin data) GST_FORMAT_TIME])"
    by (simp add: refresh_ui_def query_duration_step_def query_position_step_def
        split: option.splits)
  have 3: "GstState_value GST_STATE_PAUSED \<le> GstState_value (state data) \<longrightarrow>
      fst (snd (refresh_ui a data)) =
        (if GST_CLOCK_TIME_IS_VALID (duration data) then data
         else case duration_answer a of None \<Rightarrow> data | Some d \<Rightarrow> data\<lparr>duration := d\<rparr>)"
    by (simp add: refresh_ui_def query_duration_step_def split: option.splits)
  have 4: "GstState_value GST_STATE_PAUSED \<le> GstState_value (state data) \<longrightarrow>
      filter (\<lambda>c. c = g_printerr (''Could not query current duration.'' @ [LF]))
          (snd (snd (refresh_ui a data))) =
        (if \<not> GST_CLOCK_TIME_IS_VALID (duration data) \<and> duration_answer a = None
         then [g_printerr (''Could not query current duration.'' @ [LF])] else [])"
    by (simp add: refresh_ui_def query_duration_step_def query_position_step_def
        split: option.splits)
  have 5: "GstState_value GST_STATE_PAUSED \<le> GstState_value (state data) \<longrightarrow>
      filter is_position_query (snd (snd (refresh_ui a data))) =
        [gst_element_query_position (playbin data) GST_FORMAT_TIME]"
    by (simp add: refresh_ui_def query_duration_step_def query_position_step_def
        split: option.splits)
  have 6: "GstState_value GST_STATE_PAUSED \<le> GstState_value (state data) \<longrightarrow>
      filter is_range_set_value (snd (snd (refresh_ui a data))) =
        (case position_answer a of
           None \<Rightarrow> []
         | Some current \<Rightarrow>
             [gtk_range_set_value (slider data)
                (gdouble_divide (gdouble_of_gint64 current) (gdouble_of_guint64 GST_SECOND))])"
    by (simp add: refresh_ui_def query_duration_step_def query_position_step_def
        split: option.splits)
  from refresh_ui_again [of a data] 1 2 3 4 5 6 timer_duration_failures [of data as]
  show ?thesis by blast
qed

theorem refresh_ui_poll_witness:
  "fst (timer
     [\<lparr>duration_answer = None, position_answer = Some 1000000000\<rparr>,
      \<lparr>duration_answer = None, position_answer = Some 2000000000\<rparr>,
      \<lparr>duration_answer = None, position_answer = Some 3000000000\<rparr>]
     ((underscore_main_data 1)\<lparr>state := GST_STATE_PLAYING\<rparr>)) =
     (underscore_main_data 1)\<lparr>state := GST_STATE_PLAYING\<rparr> \<and>
   map (filter is_range_set_value) (snd (timer
     [\<lparr>duration_answer = None, position_answer = Some 1000000000\<rparr>,
      \<lparr>duration_answer = None, position_answer = Some 2000000000\<rparr>,
      \<lparr>duration_answer = None, position_answer = Some 3000000000\<rparr>]
     ((underscore_main_data 1)\<lparr>state := GST_STATE_PLAYING\<rparr>))) =
     [[gtk_range_set_value 0
         (gdouble_divide (gdouble_of_gint64 1000000000) (gdouble_of_guint64 GST_SECOND))],
      [gtk_range_set_value 0
         (gdouble_divide (gdouble_of_gint64 2000000000) (gdouble_of_guint64 GST_SECOND))],
      [gtk_range_set_value 0
         (gdouble_divide (gdouble_of_gint64 3000000000) (gdouble_of_guint64 GST_SECOND))]]"
proof -
  let ?d = "(underscore_main_data 1)\<lparr>state := GST_STATE_PLAYING\<rparr>"
  let ?as = "[\<lparr>duration_answer = None, position_answer = Some 1000000000\<rparr>,
      \<lparr>duration_answer = None, position_answer = Some 2000000000\<rparr>,
      \<lparr>duration_answer = None, position_answer = Some (3000000000 :: gint64)\<rparr>]"
  have 1: "GstState_value GST_STATE_PAUSED \<le> GstState_value (state ?d)"
    by (simp add: underscore_main_data_def)
  have 2: "\<not> GST_CLOCK_TIME_IS_VALID (duration ?d) \<and>
      (\<forall>a \<in> set ?as. duration_answer a = None)"
    by (simp add: underscore_main_data_def GST_CLOCK_TIME_IS_VALID_def)
  have 3: "map (\<lambda>a. case position_answer a of
                  None \<Rightarrow> []
                | Some current \<Rightarrow>
                    [gtk_range_set_value (slider ?d)
                       (gdouble_divide (gdouble_of_gint64 current) (gdouble_of_guint64 GST_SECOND))]) ?as =
     [[gtk_range_set_value 0
         (gdouble_divide (gdouble_of_gint64 1000000000) (gdouble_of_guint64 GST_SECOND))],
      [gtk_range_set_value 0
         (gdouble_divide (gdouble_of_gint64 2000000000) (gdouble_of_guint64 GST_SECOND))],
      [gtk_range_set_value 0
         (gdouble_divide (gdouble_of_gint64 3000000000) (gdouble_of_guint64 GST_SECOND))]]"
    by (simp add: underscore_main_data_def)
  from refresh_ui_poll [of "\<lparr>duration_answer = None, position_answer = None\<rparr>" ?d ?as] 1 2
  have "fst (timer ?as ?d) = ?d \<and>
    map (filter is_range_set_value) (snd (timer ?as ?d)) =
      map (\<lambda>a. case position_answer a of
                  None \<Rightarrow> []
                | Some current \<Rightarrow>
                    [gtk_range_set_value (slider ?d)
                       (gdouble_divide (gdouble_of_gint64 current) (gdouble_of_guint64 GST_SECOND))]) ?as"
    by blast
  then show ?thesis unfolding 3 .
qed

text \<open>
  Claim C3 as it is written fails: in \<open>GST_STATE_READY\<close> a call of \<open>refresh_ui\<close> does
  not query the position and does not update the slider, although the pipeline would
  answer both queries.
\<close>

theorem refresh_ui_guard_counterexample:
  "filter is_position_query (snd (snd (refresh_ui
     \<lparr>duration_answer = Some 60000000000, position_answer = Some 2000000000\<rparr>
     ((underscore_main_data 1)\<lparr>state := GST_STATE_READY\<rparr>)))) = [] \<and>
   filter is_range_set_value (snd (snd (refresh_ui
     \<lparr>duration_answer = Some 60000000000, position_answer = Some 2000000000\<rparr>
     ((underscore_main_data 1)\<lparr>state := GST_STATE_READY\<rparr>)))) = []"
  by (simp add: refresh_ui_def underscore_main_data_def)

end
